theory Spec2Isabelle
  imports Complex_Main "HOL-Library.AList"
begin

section \<open>Python values read from the Record Store\<close>

text \<open>
  The risk endpoint \<^verbatim>\<open>assess_risk\<close> of \<^verbatim>\<open>routers/risk_assessment.py\<close> reads
  schemaless documents. A field may hold any of the store's value kinds, so a document is
  an association list from field names to dynamically typed values. Floats are modelled
  as real numbers: finite values with exact arithmetic.
\<close>

datatype pyval =
    VNone
  | VBool bool
  | VInt int
  | VFloat real
  | VStr string
  | VList "pyval list"
  | VDict "(string \<times> pyval) list"

type_synonym dict = "(string \<times> pyval) list"

datatype py_exc =
    ValueError
  | TypeError
  | AttributeError
  | KeyError string
  | IndexError
  | StopIteration
  | StoreError
  | ModelError

text \<open>\<^verbatim>\<open>d.get(k, default)\<close>: a key stored with the value None yields None, not the default.\<close>

definition dict_get :: "dict \<Rightarrow> string \<Rightarrow> pyval \<Rightarrow> pyval" where
  "dict_get d k dflt = (case map_of d k of Some v \<Rightarrow> v | None \<Rightarrow> dflt)"

text \<open>\<^verbatim>\<open>v == "literal"\<close> for a string literal: true only for that very string.\<close>

definition eq_str :: "pyval \<Rightarrow> string \<Rightarrow> bool" where
  "eq_str v s = (case v of VStr t \<Rightarrow> t = s | _ \<Rightarrow> False)"

text \<open>
  The operand of an ordering comparison with a number (\<^verbatim>\<open>bmi < 18.5\<close>,
  \<^verbatim>\<open>smoker_status > 0\<close>): bools, ints and floats compare by value, everything else
  raises TypeError.
\<close>

definition as_number :: "pyval \<Rightarrow> py_exc + real" where
  "as_number v =
     (case v of
        VBool b \<Rightarrow> Inr (if b then 1 else 0)
      | VInt i \<Rightarrow> Inr (real_of_int i)
      | VFloat r \<Rightarrow> Inr r
      | _ \<Rightarrow> Inl TypeError)"

text \<open>
  The string parsers behind \<^verbatim>\<open>int(s)\<close> and \<^verbatim>\<open>float(s)\<close> belong to the language, not
  to the repository: they are a parameter. None stands for the ValueError of a string
  that is no numeric literal.
\<close>

record builtins =
  str_to_int :: "string \<Rightarrow> int option"
  str_to_float :: "string \<Rightarrow> real option"

definition trunc :: "real \<Rightarrow> int" where
  "trunc r = (if 0 \<le> r then \<lfloor>r\<rfloor> else \<lceil>r\<rceil>)"

definition py_int :: "builtins \<Rightarrow> pyval \<Rightarrow> py_exc + int" where
  "py_int B v =
     (case v of
        VBool b \<Rightarrow> Inr (if b then 1 else 0)
      | VInt i \<Rightarrow> Inr i
      | VFloat r \<Rightarrow> Inr (trunc r)
      | VStr s \<Rightarrow> (case str_to_int B s of Some i \<Rightarrow> Inr i | None \<Rightarrow> Inl ValueError)
      | _ \<Rightarrow> Inl TypeError)"

definition py_float :: "builtins \<Rightarrow> pyval \<Rightarrow> py_exc + real" where
  "py_float B v =
     (case v of
        VBool b \<Rightarrow> Inr (if b then 1 else 0)
      | VInt i \<Rightarrow> Inr (real_of_int i)
      | VFloat r \<Rightarrow> Inr r
      | VStr s \<Rightarrow> (case str_to_float B s of Some r \<Rightarrow> Inr r | None \<Rightarrow> Inl ValueError)
      | _ \<Rightarrow> Inl TypeError)"

text \<open>Sequencing of steps that may raise: the first exception ends the computation.\<close>

definition and_then :: "'e + 'a \<Rightarrow> ('a \<Rightarrow> 'e + 'b) \<Rightarrow> 'e + 'b" where
  "and_then m f = (case m of Inl e \<Rightarrow> Inl e | Inr x \<Rightarrow> f x)"

section \<open>Derived BMI fields (step 6 of \<^verbatim>\<open>assess_risk\<close>)\<close>

definition bmi_category :: "real \<Rightarrow> int" where
  "bmi_category bmi =
     (if bmi < 18.5 then 0
      else if 18.5 \<le> bmi \<and> bmi < 25 then 1
      else if 25 \<le> bmi \<and> bmi < 30 then 2
      else 3)"

definition is_obese :: "real \<Rightarrow> int" where
  "is_obese bmi = (if bmi \<ge> 30 then 1 else 0)"

section \<open>Feature dictionary (step 7 of \<^verbatim>\<open>assess_risk\<close>)\<close>

text \<open>
  Iterating a value, as the generator over \<^verbatim>\<open>results\<close> does: a list yields its
  elements, a mapping its keys, a string its characters; anything else is not iterable.
\<close>

definition py_iter :: "pyval \<Rightarrow> py_exc + pyval list" where
  "py_iter v =
     (case v of
        VList xs \<Rightarrow> Inr xs
      | VDict d \<Rightarrow> Inr (map (\<lambda>kv. VStr (fst kv)) d)
      | VStr s \<Rightarrow> Inr (map (\<lambda>c. VStr [c]) s)
      | _ \<Rightarrow> Inl TypeError)"

text \<open>
  \<^verbatim>\<open>next((r.get("value") for r in results if r.get("test_name") == name), default)\<close>:
  the generator stops at the first entry with that test name; an entry met before it
  that is no mapping has no \<^verbatim>\<open>get\<close> and raises AttributeError; entries after the match
  are never looked at.
\<close>

fun first_value :: "string \<Rightarrow> pyval list \<Rightarrow> pyval \<Rightarrow> py_exc + pyval" where
  "first_value name [] dflt = Inr dflt"
| "first_value name (r # rs) dflt =
     (case r of
        VDict d \<Rightarrow>
          (if eq_str (dict_get d ''test_name'' VNone) name
           then Inr (dict_get d ''value'' VNone)
           else first_value name rs dflt)
      | _ \<Rightarrow> Inl AttributeError)"

definition lab_value :: "builtins \<Rightarrow> string \<Rightarrow> pyval \<Rightarrow> pyval \<Rightarrow> py_exc + real" where
  "lab_value B name results dflt =
     and_then (py_iter results) (\<lambda>rs.
     and_then (first_value name rs dflt) (\<lambda>v.
     py_float B v))"

record features =
  male :: int
  BPMeds :: int
  totChol :: real
  sysBP :: real
  diaBP :: real
  heartRate :: real
  glucose :: real
  age_group :: int
  smoker_status :: int
  is_obese_f :: int
  bp_category :: int
  bmi_category_f :: int
  male_smoker :: int
  prediabetes_indicator :: int
  insulin_resistance :: int
  metabolic_syndrome :: int

text \<open>
  \<^verbatim>\<open>int(user.get("gender") == "male" and user.get("smoker_status", 0) > 0)\<close>: the
  comparison with 0 is evaluated only for a male subject.
\<close>

definition male_smoker_of :: "dict \<Rightarrow> py_exc + int" where
  "male_smoker_of user =
     (if eq_str (dict_get user ''gender'' VNone) ''male''
      then and_then (as_number (dict_get user ''smoker_status'' (VInt 0)))
             (\<lambda>s. Inr (if s > 0 then 1 else 0))
      else Inr 0)"

text \<open>The entries of the dictionary literal are evaluated in the order they are written.\<close>

definition build_features ::
  "builtins \<Rightarrow> dict \<Rightarrow> dict \<Rightarrow> dict \<Rightarrow> dict \<Rightarrow> int \<Rightarrow> int \<Rightarrow> py_exc + features" where
  "build_features B user hypertension biomarkers medications bmi_cat obese =
     (let results = dict_get biomarkers ''results'' (VList []) in
      and_then (py_int B (dict_get medications ''bp_medication'' (VInt 0))) (\<lambda>v_BPMeds.
      and_then (lab_value B ''Cholesterol'' results (VInt 180)) (\<lambda>v_totChol.
      and_then (py_float B (dict_get hypertension ''systolic'' (VInt 120))) (\<lambda>v_sysBP.
      and_then (py_float B (dict_get hypertension ''diastolic'' (VInt 80))) (\<lambda>v_diaBP.
      and_then (py_float B (dict_get hypertension ''pulse'' (VInt 72))) (\<lambda>v_heartRate.
      and_then (lab_value B ''Glucose'' results (VInt 100)) (\<lambda>v_glucose.
      and_then (py_int B (dict_get user ''age_group'' (VInt 1))) (\<lambda>v_age_group.
      and_then (py_int B (dict_get user ''smoker_status'' (VInt 0))) (\<lambda>v_smoker_status.
      and_then (py_int B (dict_get hypertension ''bp_category'' (VInt 0))) (\<lambda>v_bp_category.
      and_then (male_smoker_of user) (\<lambda>v_male_smoker.
      and_then (py_int B (dict_get hypertension ''prediabetes_indicator'' (VInt 0))) (\<lambda>v_pre.
      and_then (py_int B (dict_get hypertension ''insulin_resistance'' (VInt 0))) (\<lambda>v_ins.
      and_then (py_int B (dict_get hypertension ''metabolic_syndrome'' (VInt 0))) (\<lambda>v_met.
      Inr \<lparr> male = (if eq_str (dict_get user ''gender'' VNone) ''male'' then 1 else 0),
            BPMeds = v_BPMeds,
            totChol = v_totChol,
            sysBP = v_sysBP,
            diaBP = v_diaBP,
            heartRate = v_heartRate,
            glucose = v_glucose,
            age_group = v_age_group,
            smoker_status = v_smoker_status,
            is_obese_f = obese,
            bp_category = v_bp_category,
            bmi_category_f = bmi_cat,
            male_smoker = v_male_smoker,
            prediabetes_indicator = v_pre,
            insulin_resistance = v_ins,
            metabolic_syndrome = v_met \<rparr>))))))))))))))"

text \<open>
  Steps 6 and 7 together: the comparisons on \<^verbatim>\<open>bmi\<close> come first and raise TypeError
  on a value that is no number. A missing sub-record arrives as the empty mapping
  (\<^verbatim>\<open>x.to_dict() if x else {}\<close>).
\<close>

definition or_empty :: "dict option \<Rightarrow> dict" where
  "or_empty r = (case r of Some d \<Rightarrow> d | None \<Rightarrow> [])"

definition assemble_features ::
  "builtins \<Rightarrow> dict \<Rightarrow> dict \<Rightarrow> dict option \<Rightarrow> dict option \<Rightarrow> dict option
     \<Rightarrow> py_exc + real \<times> features" where
  "assemble_features B user measurements hyp bio med =
     and_then (as_number (dict_get measurements ''bmi'' (VFloat 25))) (\<lambda>bmi.
     and_then (build_features B user (or_empty hyp) (or_empty bio) (or_empty med)
                 (bmi_category bmi) (is_obese bmi)) (\<lambda>f.
     Inr (bmi, f)))"

section \<open>Inference (steps 8 and 9 of \<^verbatim>\<open>assess_risk\<close>)\<close>

text \<open>
  The fitted artifacts are loaded from pickles at import time: they are parameters. What
  the endpoint uses of a classifier is \<^verbatim>\<open>predict_proba(x)[0][1]\<close> and, in the
  explainer, the attributes probed with \<^verbatim>\<open>hasattr\<close>; an absent attribute is None.
  The field names are the attribute names without their trailing underscore.
\<close>

record estimator =
  feature_importances :: "real list option"
  coef :: "real list list option"

record classifier =
  named_estimators :: "(string \<times> estimator) list option"
  estimators :: "estimator list option"
  own :: estimator

record artifact =
  feature_names_in :: "string list"
  scaler_transform :: "real list \<Rightarrow> py_exc + real list"
  selector_transform :: "real list \<Rightarrow> py_exc + real list"
  predict_proba :: "real list \<Rightarrow> py_exc + real"
  model :: classifier
  selected_features :: "string list"

text \<open>\<^verbatim>\<open>pd.DataFrame([features])\<close>: one row, the columns in the order of the dictionary.\<close>

type_synonym row = "(string \<times> real) list"

definition feature_columns :: "features \<Rightarrow> row" where
  "feature_columns f =
     [(''male'', real_of_int (male f)),
      (''BPMeds'', real_of_int (BPMeds f)),
      (''totChol'', totChol f),
      (''sysBP'', sysBP f),
      (''diaBP'', diaBP f),
      (''heartRate'', heartRate f),
      (''glucose'', glucose f),
      (''age_group'', real_of_int (age_group f)),
      (''smoker_status'', real_of_int (smoker_status f)),
      (''is_obese'', real_of_int (is_obese_f f)),
      (''bp_category'', real_of_int (bp_category f)),
      (''bmi_category'', real_of_int (bmi_category_f f)),
      (''male_smoker'', real_of_int (male_smoker f)),
      (''prediabetes_indicator'', real_of_int (prediabetes_indicator f)),
      (''insulin_resistance'', real_of_int (insulin_resistance f)),
      (''metabolic_syndrome'', real_of_int (metabolic_syndrome f))]"

text \<open>\<^verbatim>\<open>X[name] = v\<close>: an existing column is overwritten in place, a new one is appended.\<close>

definition set_column :: "string \<Rightarrow> real \<Rightarrow> row \<Rightarrow> row" where
  "set_column name v X = AList.update name v X"

text \<open>\<^verbatim>\<open>X[names]\<close>: the columns in the order of \<^verbatim>\<open>names\<close>; KeyError on a missing one.\<close>

fun select_columns :: "string list \<Rightarrow> row \<Rightarrow> py_exc + real list" where
  "select_columns [] X = Inr []"
| "select_columns (n # ns) X =
     (case map_of X n of
        None \<Rightarrow> Inl (KeyError n)
      | Some v \<Rightarrow> and_then (select_columns ns X) (\<lambda>vs. Inr (v # vs)))"

record pipeline_run =
  X_in :: "real list"
  selected :: "real list"
  prob :: real

definition run_pipeline :: "artifact \<Rightarrow> row \<Rightarrow> py_exc + pipeline_run" where
  "run_pipeline A X =
     and_then (select_columns (feature_names_in A) X) (\<lambda>X'.
     and_then (scaler_transform A X') (\<lambda>scaled.
     and_then (selector_transform A scaled) (\<lambda>sel.
     and_then (predict_proba A sel) (\<lambda>p.
     Inr \<lparr> X_in = X', selected = sel, prob = p \<rparr>))))"

definition predict_risks ::
  "features \<Rightarrow> artifact \<Rightarrow> artifact \<Rightarrow> py_exc + pipeline_run \<times> pipeline_run" where
  "predict_risks f diabetes hypertension =
     and_then (run_pipeline diabetes (set_column ''hypertension'' 0.5 (feature_columns f))) (\<lambda>dia.
     and_then (run_pipeline hypertension (set_column ''diabetes'' (prob dia) (feature_columns f))) (\<lambda>hyp.
     Inr (dia, hyp)))"

section \<open>Explainer (step 10 of \<^verbatim>\<open>assess_risk\<close>)\<close>

text \<open>\<^verbatim>\<open>round(x, ndigits)\<close> on exact values: to the nearest, ties to the even neighbour.\<close>

definition round_half_even :: "real \<Rightarrow> int" where
  "round_half_even x =
     (let f = \<lfloor>x\<rfloor>; d = x - real_of_int f
      in if d < 1 / 2 then f else if 1 / 2 < d then f + 1 else if even f then f else f + 1)"

definition py_round :: "real \<Rightarrow> nat \<Rightarrow> real" where
  "py_round x ndigits = real_of_int (round_half_even (x * 10 ^ ndigits)) / 10 ^ ndigits"

record TopFeatures =
  feature_name :: string
  contribution_score :: real

definition get_base_model :: "classifier \<Rightarrow> py_exc + estimator" where
  "get_base_model m =
     (case named_estimators m of
        Some named \<Rightarrow> (case named of [] \<Rightarrow> Inl StopIteration | kv # _ \<Rightarrow> Inr (snd kv))
      | None \<Rightarrow>
          (case estimators m of
             Some es \<Rightarrow> (case es of [] \<Rightarrow> Inl IndexError | e # _ \<Rightarrow> Inr e)
           | None \<Rightarrow> Inr (own m)))"

text \<open>
  \<^verbatim>\<open>np.argsort(v)\<close>: the positions of \<^verbatim>\<open>v\<close> in ascending order of value. Equal values
  are kept here in their original order (a stable sort, as the insertion sort numpy
  runs on short arrays); numpy promises no order among them.
\<close>

definition argsort :: "real list \<Rightarrow> nat list" where
  "argsort v = sort_key (\<lambda>i. v ! i) [0..<length v]"

text \<open>
  The body shared, word for word, by the \<^verbatim>\<open>feature_importances\<close> and the
  \<^verbatim>\<open>coef\<close> branch: \<^verbatim>\<open>argsort(v)[::-1][:top_n]\<close>, the values there, their sum floored
  at 1e-8, percentages rounded to one decimal. \<^verbatim>\<open>feature_names[i]\<close> raises IndexError
  past the end of the list.
\<close>

definition top_indices :: "real list \<Rightarrow> nat \<Rightarrow> nat list" where
  "top_indices v top_n = take top_n (rev (argsort v))"

definition entries :: "string list \<Rightarrow> nat list \<Rightarrow> real list \<Rightarrow> TopFeatures list" where
  "entries feature_names indices normalized =
     map (\<lambda>ji. \<lparr> feature_name = feature_names ! snd ji,
                 contribution_score = py_round (normalized ! fst ji) 1 \<rparr>)
       (enumerate 0 indices)"

definition rank_features :: "real list \<Rightarrow> string list \<Rightarrow> nat \<Rightarrow> py_exc + TopFeatures list" where
  "rank_features v feature_names top_n =
     (let indices = top_indices v top_n;
          top_values = map (\<lambda>i. v ! i) indices;
          total = max (sum_list top_values) (1 / 10 ^ 8);
          normalized = map (\<lambda>x. (x / total) * 100) top_values
      in if list_ex (\<lambda>i. length feature_names \<le> i) indices then Inl IndexError
         else Inr (entries feature_names indices normalized))"

text \<open>
  The \<^verbatim>\<open>try\<close> block: Inl is an exception raised inside it (caught and printed),
  \<open>Inr None\<close> is leaving it with no attribute found, \<open>Inr (Some r)\<close> is a return.
\<close>

definition extract_top :: "classifier \<Rightarrow> string list \<Rightarrow> nat \<Rightarrow> py_exc + TopFeatures list option" where
  "extract_top m feature_names top_n =
     and_then (get_base_model m) (\<lambda>base_model.
       case feature_importances base_model of
         Some importances \<Rightarrow>
           and_then (rank_features importances feature_names top_n) (\<lambda>r. Inr (Some r))
       | None \<Rightarrow>
           (case coef base_model of
              Some c \<Rightarrow>
                (case c of
                   [] \<Rightarrow> Inl IndexError
                 | c0 # _ \<Rightarrow>
                     and_then (rank_features (map abs c0) feature_names top_n) (\<lambda>r. Inr (Some r)))
            | None \<Rightarrow> Inr None))"

text \<open>
  \<^verbatim>\<open>np.random.choice(n, top_n, replace=False)\<close>: the generator's state is a stream of
  raw numbers; each draw removes one element of the remaining pool. More draws than
  elements is a ValueError.
\<close>

fun choice :: "nat list \<Rightarrow> nat list \<Rightarrow> nat \<Rightarrow> nat list" where
  "choice rng pool 0 = []"
| "choice rng [] (Suc k) = []"
| "choice rng (p # ps) (Suc k) =
     (let j = (case rng of [] \<Rightarrow> 0 | r # _ \<Rightarrow> r mod length (p # ps))
      in (p # ps) ! j # choice (tl rng) (take j (p # ps) @ drop (Suc j) (p # ps)) k)"

definition linspace :: "real \<Rightarrow> real \<Rightarrow> nat \<Rightarrow> real list" where
  "linspace a b n =
     (if n = 1 then [a] else map (\<lambda>k. a + real k * ((b - a) / real (n - 1))) [0..<n])"

definition fallback :: "nat list \<Rightarrow> string list \<Rightarrow> nat \<Rightarrow> py_exc + TopFeatures list \<times> nat list" where
  "fallback rng feature_names top_n =
     (if length feature_names < top_n then Inl ValueError
      else
        (let indices = choice rng [0..<length feature_names] top_n;
             scores = linspace 0.8 0.2 top_n;
             total = sum_list scores;
             normalized = map (\<lambda>x. (x / total) * 100) scores
         in Inr (entries feature_names indices normalized, drop top_n rng)))"

definition top_features ::
  "nat list \<Rightarrow> classifier \<Rightarrow> real list \<Rightarrow> string list \<Rightarrow> nat
     \<Rightarrow> py_exc + TopFeatures list \<times> nat list" where
  "top_features rng m X_selected feature_names top_n =
     (case extract_top m feature_names top_n of
        Inr (Some r) \<Rightarrow> Inr (r, rng)
      | _ \<Rightarrow> fallback rng feature_names top_n)"

text \<open>
  The values the explainer ranks: the importances where the base estimator has them,
  otherwise the absolute values of the first row of its coefficients.
\<close>

definition ranked_values :: "estimator \<Rightarrow> real list option" where
  "ranked_values base_model =
     (case feature_importances base_model of
        Some importances \<Rightarrow> Some importances
      | None \<Rightarrow>
          (case coef base_model of
             Some c \<Rightarrow> (case c of [] \<Rightarrow> None | c0 # _ \<Rightarrow> Some (map abs c0))
           | None \<Rightarrow> None))"

section \<open>Result and persistence (steps 11 and 12 of \<^verbatim>\<open>assess_risk\<close>)\<close>

text \<open>
  Modelled from the spec: the response types \<^verbatim>\<open>DerivedFeatures\<close>, \<^verbatim>\<open>TopFeatures\<close> and
  \<^verbatim>\<open>RiskPredictionOutput\<close> are declared in \<^verbatim>\<open>models/schema.py\<close>, which is not among
  the sources; the records carry the fields the endpoint passes to their constructors,
  with the types of the persisted document shape.
\<close>

record DerivedFeatures =
  d_age_group :: string
  d_smoker_status :: string
  d_is_obese :: bool
  d_bp_category :: string
  d_bmi_category :: string
  d_bmi :: real
  d_pulse_pressure :: real
  d_male_smoker :: bool
  d_prediabetes_indicator :: bool
  d_insulin_resistance :: bool
  d_metabolic_syndrome :: bool

record RiskPredictionOutput =
  diabetes_risk :: real
  hypertension_risk :: real
  derived_features :: DerivedFeatures
  input_values :: features
  top_diabetes_features :: "TopFeatures list"
  top_hypertension_features :: "TopFeatures list"

definition age_group_label :: "int \<Rightarrow> string" where
  "age_group_label k =
     (if k = 0 then ''Young'' else if k = 1 then ''Middle-aged''
      else if k = 2 then ''Older'' else ''Middle-aged'')"

definition smoker_status_label :: "int \<Rightarrow> string" where
  "smoker_status_label k =
     (if k = 0 then ''Non-smoker'' else if k = 1 then ''Light smoker''
      else if k = 2 then ''Moderate smoker'' else if k = 3 then ''Heavy smoker''
      else ''Non-smoker'')"

definition bp_category_label :: "int \<Rightarrow> string" where
  "bp_category_label k =
     (if k = - 1 then ''Low'' else if k = 0 then ''Normal'' else if k = 1 then ''Elevated''
      else if k = 2 then ''Stage 1'' else if k = 3 then ''Stage 2'' else ''Normal'')"

definition bmi_category_label :: "int \<Rightarrow> string" where
  "bmi_category_label k =
     (if k = 0 then ''Underweight'' else if k = 1 then ''Normal''
      else if k = 2 then ''Overweight'' else if k = 3 then ''Obese'' else ''Normal'')"

definition derive :: "real \<Rightarrow> features \<Rightarrow> DerivedFeatures" where
  "derive bmi f =
     \<lparr> d_age_group = age_group_label (age_group f),
       d_smoker_status = smoker_status_label (smoker_status f),
       d_is_obese = (is_obese_f f \<noteq> 0),
       d_bp_category = bp_category_label (bp_category f),
       d_bmi_category = bmi_category_label (bmi_category_f f),
       d_bmi = bmi,
       d_pulse_pressure = sysBP f - diaBP f,
       d_male_smoker = (male_smoker f \<noteq> 0),
       d_prediabetes_indicator = (prediabetes_indicator f \<noteq> 0),
       d_insulin_resistance = (insulin_resistance f \<noteq> 0),
       d_metabolic_syndrome = (metabolic_syndrome f \<noteq> 0) \<rparr>"

text \<open>
  \<^verbatim>\<open>datetime.now()\<close> enters through the four strings made of it. The write to the
  Record Store either stores the document under its key (replacing a document already
  there) or raises; which of the two is the store's, so it is an input.
\<close>

record stamp =
  doc_id :: string
  isoformat :: string
  display :: string
  sortable :: string

record saved_prediction =
  prediction :: RiskPredictionOutput
  timestamp :: string
  display_time :: string
  sortable_time :: string

type_synonym collection = "(string \<times> saved_prediction) list"

record store =
  user_doc :: "dict option"
  measurements_doc :: "dict option"
  latest_hypertension :: "dict option"
  latest_biomarkers :: "dict option"
  latest_medication :: "dict option"
  risk_predictions :: collection

record environment =
  now :: stamp
  write_fault :: "py_exc option"
  rng :: "nat list"

definition save_prediction ::
  "environment \<Rightarrow> RiskPredictionOutput \<Rightarrow> store \<Rightarrow> py_exc + store" where
  "save_prediction E r S =
     (case write_fault E of
        Some e \<Rightarrow> Inl e
      | None \<Rightarrow>
          Inr (S\<lparr> risk_predictions :=
                    AList.update (doc_id (now E))
                      \<lparr> prediction = r,
                        timestamp = isoformat (now E),
                        display_time = display (now E),
                        sortable_time = sortable (now E) \<rparr>
                      (risk_predictions S) \<rparr>))"

section \<open>The endpoint \<^verbatim>\<open>POST /risk/{national_id}\<close>\<close>

datatype detail = Text string | Str py_exc

datatype http_exception = HTTPException nat detail

datatype raised = Http http_exception | Exc py_exc

text \<open>Steps 6 to 11: everything between the fetches and the write.\<close>

definition compute ::
  "builtins \<Rightarrow> nat list \<Rightarrow> artifact \<Rightarrow> artifact \<Rightarrow> dict \<Rightarrow> dict
     \<Rightarrow> dict option \<Rightarrow> dict option \<Rightarrow> dict option \<Rightarrow> py_exc + RiskPredictionOutput" where
  "compute B g diabetes hypertension user measurements hyp bio med =
     and_then (assemble_features B user measurements hyp bio med) (\<lambda>bf.
     and_then (predict_risks (snd bf) diabetes hypertension) (\<lambda>runs.
     and_then (top_features g (model diabetes) (selected (fst runs))
                 (selected_features diabetes) 3) (\<lambda>dia_top.
     and_then (top_features (snd dia_top) (model hypertension) (selected (snd runs))
                 (selected_features hypertension) 3) (\<lambda>hyp_top.
     Inr \<lparr> diabetes_risk = py_round (prob (fst runs) * 100) 2,
           hypertension_risk = py_round (prob (snd runs) * 100) 2,
           derived_features = derive (fst bf) (snd bf),
           input_values = snd bf,
           top_diabetes_features = fst dia_top,
           top_hypertension_features = fst hyp_top \<rparr>))))"

text \<open>The body of the \<^verbatim>\<open>try\<close>: what it raises, or the result and the store after the write.\<close>

definition assess_body ::
  "builtins \<Rightarrow> environment \<Rightarrow> artifact \<Rightarrow> artifact \<Rightarrow> store
     \<Rightarrow> raised + RiskPredictionOutput \<times> store" where
  "assess_body B E diabetes hypertension S =
     (case user_doc S of
        None \<Rightarrow> Inl (Http (HTTPException 404 (Text ''User not found'')))
      | Some user \<Rightarrow>
          (case measurements_doc S of
             None \<Rightarrow> Inl (Http (HTTPException 404 (Text ''Missing measurements'')))
           | Some measurements \<Rightarrow>
               if measurements = [] then
                 Inl (Http (HTTPException 404 (Text ''Missing measurements'')))
               else
                 (case compute B (rng E) diabetes hypertension user measurements
                         (latest_hypertension S) (latest_biomarkers S) (latest_medication S) of
                    Inl e \<Rightarrow> Inl (Exc e)
                  | Inr r \<Rightarrow>
                      (case save_prediction E r S of
                         Inl e \<Rightarrow> Inl (Exc e)
                       | Inr S' \<Rightarrow> Inr (r, S')))))"

text \<open>
  The two handlers: an HTTPException passes unchanged, any other exception becomes a
  500 whose detail is the exception's text. The store is left as it was on every error.
\<close>

definition assess_risk ::
  "builtins \<Rightarrow> environment \<Rightarrow> artifact \<Rightarrow> artifact \<Rightarrow> store
     \<Rightarrow> (http_exception + RiskPredictionOutput) \<times> store" where
  "assess_risk B E diabetes hypertension S =
     (case assess_body B E diabetes hypertension S of
        Inl (Http h) \<Rightarrow> (Inl h, S)
      | Inl (Exc e) \<Rightarrow> (Inl (HTTPException 500 (Str e)), S)
      | Inr (r, S') \<Rightarrow> (Inr r, S'))"

section \<open>Example inputs\<close>

text \<open>
  An instance of the string parsers for the examples: it accepts exactly the non-empty
  strings of ASCII digits, which \<^verbatim>\<open>int\<close> and \<^verbatim>\<open>float\<close> both read as that number.
\<close>

fun digits_value :: "string \<Rightarrow> nat \<Rightarrow> nat option" where
  "digits_value [] acc = Some acc"
| "digits_value (c # cs) acc =
     (let n = (of_char c :: nat)
      in if 48 \<le> n \<and> n \<le> 57 then digits_value cs (10 * acc + (n - 48)) else None)"

definition digit_string :: "string \<Rightarrow> nat option" where
  "digit_string s = (if s = [] then None else digits_value s 0)"

definition plain_builtins :: builtins where
  "plain_builtins =
     \<lparr> str_to_int = (\<lambda>s. map_option int (digit_string s)),
       str_to_float = (\<lambda>s. map_option real (digit_string s)) \<rparr>"

definition tree_model :: classifier where
  "tree_model =
     \<lparr> named_estimators = None,
       estimators = Some [\<lparr> feature_importances = Some [0.2, 0.5, 0.3], coef = None \<rparr>],
       own = \<lparr> feature_importances = Some [0.2, 0.5, 0.3], coef = None \<rparr> \<rparr>"

definition linear_model :: classifier where
  "linear_model =
     \<lparr> named_estimators = None,
       estimators = None,
       own = \<lparr> feature_importances = None, coef = Some [[- 2, 1, 0.5]] \<rparr> \<rparr>"




definition unit_interval :: "real \<Rightarrow> real" where
  "unit_interval x = min 1 (max 0 x)"

definition diabetes_artifact :: artifact where
  "diabetes_artifact =
     \<lparr> feature_names_in = [''glucose'', ''bmi_category'', ''hypertension'', ''age_group''],
       scaler_transform = (\<lambda>x. Inr (map (\<lambda>v. v / 100) x)),
       selector_transform = (\<lambda>x. Inr (take 3 x)),
       predict_proba = (\<lambda>x. Inr (unit_interval (sum_list x / 4))),
       model = tree_model,
       selected_features = [''glucose'', ''bmi_category'', ''hypertension''] \<rparr>"

definition hypertension_artifact :: artifact where
  "hypertension_artifact =
     \<lparr> feature_names_in = [''sysBP'', ''diaBP'', ''diabetes'', ''BPMeds''],
       scaler_transform = (\<lambda>x. Inr (map (\<lambda>v. v / 200) x)),
       selector_transform = (\<lambda>x. Inr (take 3 x)),
       predict_proba = (\<lambda>x. Inr (unit_interval (sum_list x / 3))),
       model = linear_model,
       selected_features = [''sysBP'', ''diaBP'', ''diabetes''] \<rparr>"

definition scenario_store :: store where
  "scenario_store =
     \<lparr> user_doc = Some [(''gender'', VStr ''male''), (''smoker_status'', VInt 2)],
       measurements_doc = Some [(''bmi'', VFloat 32)],
       latest_hypertension = Some [(''systolic'', VInt 150), (''diastolic'', VInt 95),
                                   (''pulse'', VInt 80), (''bp_category'', VInt 2)],
       latest_biomarkers = Some [(''results'',
          VList [VDict [(''test_name'', VStr ''Cholesterol''), (''value'', VInt 220)],
                 VDict [(''test_name'', VStr ''Glucose''), (''value'', VInt 130)]])],
       latest_medication = Some [(''bp_medication'', VInt 1)],
       risk_predictions = [] \<rparr>"

definition quiet_environment :: environment where
  "quiet_environment =
     \<lparr> now = \<lparr> doc_id = ''20240102_030405'', isoformat = ''2024-01-02T03:04:05'',
               display = ''January 02, 2024 at 03:04 AM'', sortable = ''2024-01-02 03:04:05'' \<rparr>,
       write_fault = None,
       rng = [5, 1, 4] \<rparr>"


text \<open>The profile and the measurement snapshot alone: no other sub-record exists.\<close>

definition bare_store :: store where
  "bare_store =
     \<lparr> user_doc = Some [(''gender'', VStr ''female''), (''age_group'', VInt 2)],
       measurements_doc = Some [(''weight'', VFloat 70)],
       latest_hypertension = None,
       latest_biomarkers = None,
       latest_medication = None,
       risk_predictions = [] \<rparr>"

definition failing_environment :: environment where
  "failing_environment = quiet_environment\<lparr> write_fault := Some StoreError \<rparr>"

text \<open>What the scenario assembles and what the endpoint answers for it.\<close>

definition scenario_features :: features where
  "scenario_features =
     \<lparr> male = 1, BPMeds = 1, totChol = 220, sysBP = 150, diaBP = 95, heartRate = 80,
       glucose = 130, age_group = 1, smoker_status = 2, is_obese_f = 1, bp_category = 2,
       bmi_category_f = 3, male_smoker = 1, prediabetes_indicator = 0,
       insulin_resistance = 0, metabolic_syndrome = 0 \<rparr>"

definition scenario_prediction :: RiskPredictionOutput where
  "scenario_prediction =
     \<lparr> diabetes_risk = 33.38, hypertension_risk = 40.89,
       derived_features = derive 32 scenario_features,
       input_values = scenario_features,
       top_diabetes_features =
         [\<lparr> feature_name = ''bmi_category'', contribution_score = 50 \<rparr>,
          \<lparr> feature_name = ''hypertension'', contribution_score = 30 \<rparr>,
          \<lparr> feature_name = ''glucose'', contribution_score = 20 \<rparr>],
       top_hypertension_features =
         [\<lparr> feature_name = ''sysBP'', contribution_score = 57.1 \<rparr>,
          \<lparr> feature_name = ''diaBP'', contribution_score = 28.6 \<rparr>,
          \<lparr> feature_name = ''diabetes'', contribution_score = 14.3 \<rparr>] \<rparr>"

text \<open>Records with a field that is no number, and a snapshot that exists but is empty.\<close>

definition text_pressure_store :: store where
  "text_pressure_store =
     scenario_store\<lparr> latest_hypertension := Some [(''systolic'', VStr ''abc'')] \<rparr>"

definition empty_snapshot_store :: store where
  "empty_snapshot_store = scenario_store\<lparr> measurements_doc := Some [] \<rparr>"

definition blank_snapshot_store :: store where
  "blank_snapshot_store = bare_store\<lparr> measurements_doc := Some [] \<rparr>"

definition null_glucose_store :: store where
  "null_glucose_store =
     scenario_store\<lparr> latest_biomarkers :=
       Some [(''results'', VList [VDict [(''test_name'', VStr ''Glucose''), (''value'', VNone)]])] \<rparr>"

definition unknown_subject_store :: store where
  "unknown_subject_store = scenario_store\<lparr> user_doc := None \<rparr>"

section \<open>A field that is a number or is not there\<close>


section \<open>Properties\<close>

subsection \<open>The endpoint, case by case\<close>

lemma assess_risk_unfold:
  "assess_risk B E dia hyp S =
     (case user_doc S of
        None \<Rightarrow> (Inl (HTTPException 404 (Text ''User not found'')), S)
      | Some u \<Rightarrow>
          (case measurements_doc S of
             None \<Rightarrow> (Inl (HTTPException 404 (Text ''Missing measurements'')), S)
           | Some m \<Rightarrow>
               if m = [] then (Inl (HTTPException 404 (Text ''Missing measurements'')), S)
               else
                 (case compute B (rng E) dia hyp u m
                         (latest_hypertension S) (latest_biomarkers S) (latest_medication S) of
                    Inl e \<Rightarrow> (Inl (HTTPException 500 (Str e)), S)
                  | Inr r \<Rightarrow>
                      (case save_prediction E r S of
                         Inl e \<Rightarrow> (Inl (HTTPException 500 (Str e)), S)
                       | Inr S' \<Rightarrow> (Inr r, S')))))"
  by (simp add: assess_risk_def assess_body_def split: option.split sum.split)

subsection \<open>When feature assembly raises\<close>

lemma build_features_isl:
  "isl (build_features B user h b med c ob) =
     (isl (py_int B (dict_get med ''bp_medication'' (VInt 0)))
      \<or> isl (lab_value B ''Cholesterol'' (dict_get b ''results'' (VList [])) (VInt 180))
      \<or> isl (py_float B (dict_get h ''systolic'' (VInt 120)))
      \<or> isl (py_float B (dict_get h ''diastolic'' (VInt 80)))
      \<or> isl (py_float B (dict_get h ''pulse'' (VInt 72)))
      \<or> isl (lab_value B ''Glucose'' (dict_get b ''results'' (VList [])) (VInt 100))
      \<or> isl (py_int B (dict_get user ''age_group'' (VInt 1)))
      \<or> isl (py_int B (dict_get user ''smoker_status'' (VInt 0)))
      \<or> isl (py_int B (dict_get h ''bp_category'' (VInt 0)))
      \<or> isl (male_smoker_of user)
      \<or> isl (py_int B (dict_get h ''prediabetes_indicator'' (VInt 0)))
      \<or> isl (py_int B (dict_get h ''insulin_resistance'' (VInt 0)))
      \<or> isl (py_int B (dict_get h ''metabolic_syndrome'' (VInt 0))))"
  unfolding build_features_def Let_def and_then_def
  by (simp split: sum.split)

lemma assemble_features_isl:
  "isl (assemble_features B user m hyp bio med) =
     (isl (as_number (dict_get m ''bmi'' (VFloat 25)))
      \<or> (\<exists>x. as_number (dict_get m ''bmi'' (VFloat 25)) = Inr x \<and>
           isl (build_features B user (or_empty hyp) (or_empty bio) (or_empty med)
                  (bmi_category x) (is_obese x))))"
  unfolding assemble_features_def and_then_def
  by (auto split: sum.split)

lemma compute_assemble_fails:
  "assemble_features B user m hyp bio med = Inl e \<Longrightarrow>
     compute B g dia hy user m hyp bio med = Inl e"
  by (simp add: compute_def and_then_def)


subsection \<open>Fields that convert\<close>





subsection \<open>The two pipelines\<close>







subsection \<open>Ranking\<close>












lemma rank_features_out_of_range:
  assumes "\<not> (\<forall>i\<in>set (top_indices v n). i < length names)"
  shows "rank_features v names n = Inl IndexError"
  using assms by (auto simp: rank_features_def Let_def list_ex_iff not_less)


lemma extract_top_unranked:
  assumes "get_base_model m = Inl e \<or> (\<exists>b. get_base_model m = Inr b \<and> ranked_values b = None)"
  shows "\<forall>r. extract_top m names n \<noteq> Inr (Some r)"
  using assms
  by (auto simp: extract_top_def ranked_values_def and_then_def
      split: option.splits list.splits sum.splits)



subsection \<open>Rounding\<close>






subsection \<open>Successful assessments\<close>



subsection \<open>Rounding error\<close>




subsection \<open>Scores of the explainer\<close>






subsection \<open>The examples, evaluated\<close>

lemmas conv_defs = py_int_def py_float_def as_number_def dict_get_def eq_str_def and_then_def
  lab_value_def py_iter_def male_smoker_of_def or_empty_def

lemma scenario_assembled:
  "assemble_features B
     [(''gender'', VStr ''male''), (''smoker_status'', VInt 2)]
     [(''bmi'', VFloat 32)]
     (latest_hypertension scenario_store) (latest_biomarkers scenario_store)
     (latest_medication scenario_store) = Inr (32, scenario_features)"
  by (simp add: assemble_features_def build_features_def conv_defs scenario_store_def
        scenario_features_def bmi_category_def is_obese_def)

lemma scenario_runs:
  "predict_risks scenario_features diabetes_artifact hypertension_artifact =
     Inr (\<lparr> X_in = [130, 3, 1/2, 1], selected = [13/10, 3/100, 1/200], prob = 267/800 \<rparr>,
          \<lparr> X_in = [150, 95, 267/800, 1], selected = [3/4, 19/40, 267/160000],
            prob = 196267/480000 \<rparr>)"
  by (simp add: predict_risks_def run_pipeline_def set_column_def feature_columns_def
        scenario_features_def diabetes_artifact_def hypertension_artifact_def and_then_def
        unit_interval_def)

lemmas explainer_defs = top_features_def extract_top_def get_base_model_def rank_features_def
  top_indices_def argsort_def entries_def py_round_def round_half_even_def and_then_def
  enumerate_eq_zip

lemma tree_model_top:
  "top_features g tree_model X [''glucose'', ''bmi_category'', ''hypertension''] 3 =
     Inr ([\<lparr> feature_name = ''bmi_category'', contribution_score = 50 \<rparr>,
           \<lparr> feature_name = ''hypertension'', contribution_score = 30 \<rparr>,
           \<lparr> feature_name = ''glucose'', contribution_score = 20 \<rparr>], g)"
  by (simp add: explainer_defs tree_model_def)

lemma linear_model_top:
  "top_features g linear_model X [''sysBP'', ''diaBP'', ''diabetes''] 3 =
     Inr ([\<lparr> feature_name = ''sysBP'', contribution_score = 57.1 \<rparr>,
           \<lparr> feature_name = ''diaBP'', contribution_score = 28.6 \<rparr>,
           \<lparr> feature_name = ''diabetes'', contribution_score = 14.3 \<rparr>], g)"
  by (simp add: explainer_defs linear_model_def)

lemma scenario_computed:
  "compute B g diabetes_artifact hypertension_artifact
     [(''gender'', VStr ''male''), (''smoker_status'', VInt 2)]
     [(''bmi'', VFloat 32)]
     (latest_hypertension scenario_store) (latest_biomarkers scenario_store)
     (latest_medication scenario_store) = Inr scenario_prediction"
proof -
  have m: "model diabetes_artifact = tree_model" "model hypertension_artifact = linear_model"
    "selected_features diabetes_artifact = [''glucose'', ''bmi_category'', ''hypertension'']"
    "selected_features hypertension_artifact = [''sysBP'', ''diaBP'', ''diabetes'']"
    by (simp_all add: diabetes_artifact_def hypertension_artifact_def)
  show ?thesis
    by (simp add: compute_def scenario_assembled scenario_runs m tree_model_top
          linear_model_top and_then_def scenario_prediction_def py_round_def
          round_half_even_def)
qed




subsection \<open>The claims\<close>

text \<open>
  Claim C3. BMI bucketing is a total partition of the reals: every bmi falls in exactly
  one of the categories 0, 1, 2, 3, category 0 being bmi < 18.5, category 1 being
  18.5 <= bmi < 25, category 2 being 25 <= bmi < 30 and category 3 being bmi >= 30. The
  lower bounds belong to their bucket: 18.5 is in category 1, and 30.0 is in category 3
  with is_obese = 1.
\<close>

theorem bmi_category_partition:
  "bmi_category bmi \<in> {0, 1, 2, 3}
   \<and> (bmi_category bmi = 0) = (bmi < 18.5)
   \<and> (bmi_category bmi = 1) = (18.5 \<le> bmi \<and> bmi < 25)
   \<and> (bmi_category bmi = 2) = (25 \<le> bmi \<and> bmi < 30)
   \<and> (bmi_category bmi = 3) = (30 \<le> bmi)
   \<and> bmi_category 18.5 = 1
   \<and> bmi_category 30 = 3
   \<and> is_obese 30 = 1"
  by (simp add: bmi_category_def is_obese_def)

text \<open>
  Claim C10. The check on the measurement snapshot treats a document that exists but
  converts to the empty mapping like an absent one: for a subject with a profile, the
  endpoint answers 404 with the detail 'Missing measurements', and the Record Store is
  left as it was, so no Prediction Result is created.
\<close>

theorem empty_measurements_not_found:
  assumes "user_doc S = Some user" and "measurements_doc S = Some []"
  shows "assess_risk B E dia hyp S
           = (Inl (HTTPException 404 (Text ''Missing measurements'')), S)"
  using assms by (simp add: assess_risk_unfold)

theorem empty_measurements_not_found_witness:
  "user_doc empty_snapshot_store = Some [(''gender'', VStr ''male''), (''smoker_status'', VInt 2)]
   \<and> measurements_doc empty_snapshot_store = Some []
   \<and> assess_risk plain_builtins quiet_environment diabetes_artifact hypertension_artifact
         empty_snapshot_store
       = (Inl (HTTPException 404 (Text ''Missing measurements'')), empty_snapshot_store)"
proof -
  have u: "user_doc empty_snapshot_store
             = Some [(''gender'', VStr ''male''), (''smoker_status'', VInt 2)]"
    and m: "measurements_doc empty_snapshot_store = Some []"
    by (simp_all add: empty_snapshot_store_def scenario_store_def)
  from empty_measurements_not_found [OF u m] u m show ?thesis by simp
qed


text \<open>
  Claim C4 as stated fails in its "only if" half: here the profile and the measurement
  snapshot both exist, the snapshot being empty, and the endpoint still answers 404.
\<close>

theorem not_found_without_absence:
  "user_doc blank_snapshot_store \<noteq> None
   \<and> measurements_doc blank_snapshot_store \<noteq> None
   \<and> fst (assess_risk plain_builtins quiet_environment diabetes_artifact hypertension_artifact
            blank_snapshot_store)
       = Inl (HTTPException 404 (Text ''Missing measurements''))"
  by (simp add: assess_risk_unfold blank_snapshot_store_def bare_store_def)


text \<open>
  Claim C4, amended. The endpoint answers 404 if and only if the profile document is
  absent, or the measurement snapshot is absent or empty; then the Record Store is left as
  it was and no Prediction Result is returned. The condition does not mention the
  hypertension, biomarker and medication records: their absence never causes a 404.
\<close>

theorem not_found_iff:
  "((\<exists>d. fst (assess_risk B E dia hyp S) = Inl (HTTPException 404 d))
      = (user_doc S = None \<or> measurements_doc S = None \<or> measurements_doc S = Some []))
   \<and> ((user_doc S = None \<or> measurements_doc S = None \<or> measurements_doc S = Some [])
        \<longrightarrow> snd (assess_risk B E dia hyp S) = S
            \<and> (\<forall>r. fst (assess_risk B E dia hyp S) \<noteq> Inr r))"
  by (auto simp add: assess_risk_unfold split: option.split sum.split)

theorem not_found_iff_witness:
  "user_doc unknown_subject_store = None
   \<and> (\<exists>d. fst (assess_risk plain_builtins quiet_environment diabetes_artifact
                  hypertension_artifact unknown_subject_store) = Inl (HTTPException 404 d))
   \<and> snd (assess_risk plain_builtins quiet_environment diabetes_artifact
             hypertension_artifact unknown_subject_store) = unknown_subject_store
   \<and> (\<forall>r. fst (assess_risk plain_builtins quiet_environment diabetes_artifact
                  hypertension_artifact unknown_subject_store) \<noteq> Inr r)"
proof -
  have u: "user_doc unknown_subject_store = None"
    by (simp add: unknown_subject_store_def)
  from not_found_iff [of plain_builtins quiet_environment diabetes_artifact
      hypertension_artifact unknown_subject_store] u
  show ?thesis by simp
qed


text \<open>
  Claim C8 as stated fails: in the scenario the whole result is computed, the write to
  the Record Store raises, and the caller receives a 500 instead of the result.
\<close>

theorem write_failure_masks_result:
  "compute plain_builtins (rng failing_environment) diabetes_artifact hypertension_artifact
     [(''gender'', VStr ''male''), (''smoker_status'', VInt 2)] [(''bmi'', VFloat 32)]
     (latest_hypertension scenario_store) (latest_biomarkers scenario_store)
     (latest_medication scenario_store) = Inr scenario_prediction
   \<and> fst (assess_risk plain_builtins failing_environment diabetes_artifact
            hypertension_artifact scenario_store)
       = Inl (HTTPException 500 (Str StoreError))"
proof -
  have u: "user_doc scenario_store = Some [(''gender'', VStr ''male''), (''smoker_status'', VInt 2)]"
    and m: "measurements_doc scenario_store = Some [(''bmi'', VFloat 32)]"
    by (simp_all add: scenario_store_def)
  have c: "compute plain_builtins g diabetes_artifact hypertension_artifact
      [(''gender'', VStr ''male''), (''smoker_status'', VInt 2)] [(''bmi'', VFloat 32)]
      (latest_hypertension scenario_store) (latest_biomarkers scenario_store)
      (latest_medication scenario_store) = Inr scenario_prediction" for g
    by (rule scenario_computed)
  have "fst (assess_risk plain_builtins failing_environment diabetes_artifact
               hypertension_artifact scenario_store)
          = Inl (HTTPException 500 (Str StoreError))"
    by (simp add: assess_risk_unfold u m c save_prediction_def failing_environment_def)
  with c show ?thesis by simp
qed


text \<open>
  Claim C8, amended. Once the feature vector, both inferences and both explanations are
  computed, the outcome of the write decides the answer: if the write raises, the
  endpoint answers 500 with the text of that exception and the Record Store is left as
  it was; if the write succeeds, the endpoint returns the Prediction Result, and the
  document stored under the timestamp key holds that result with its three time strings.
\<close>

theorem write_outcome_decides:
  assumes "user_doc S = Some u" and "measurements_doc S = Some m" and "m \<noteq> []"
    and "compute B (rng E) dia hyp u m
           (latest_hypertension S) (latest_biomarkers S) (latest_medication S) = Inr r"
  shows "(write_fault E = Some e \<longrightarrow>
            assess_risk B E dia hyp S = (Inl (HTTPException 500 (Str e)), S))
       \<and> (write_fault E = None \<longrightarrow>
            fst (assess_risk B E dia hyp S) = Inr r
            \<and> map_of (risk_predictions (snd (assess_risk B E dia hyp S))) (doc_id (now E))
                = Some \<lparr> prediction = r, timestamp = isoformat (now E),
                         display_time = display (now E), sortable_time = sortable (now E) \<rparr>)"
  using assms
  by (simp add: assess_risk_unfold save_prediction_def update_Some_unfold split: option.split)

theorem write_outcome_decides_witness:
  "assess_risk plain_builtins failing_environment
      diabetes_artifact hypertension_artifact scenario_store
     = (Inl (HTTPException 500 (Str StoreError)), scenario_store)
   \<and> fst (assess_risk plain_builtins quiet_environment diabetes_artifact
            hypertension_artifact scenario_store) = Inr scenario_prediction
   \<and> map_of (risk_predictions (snd (assess_risk plain_builtins quiet_environment
         diabetes_artifact hypertension_artifact scenario_store))) ''20240102_030405''
       = Some \<lparr> prediction = scenario_prediction, timestamp = ''2024-01-02T03:04:05'',
                display_time = ''January 02, 2024 at 03:04 AM'',
                sortable_time = ''2024-01-02 03:04:05'' \<rparr>"
proof -
  have u: "user_doc scenario_store = Some [(''gender'', VStr ''male''), (''smoker_status'', VInt 2)]"
    and m: "measurements_doc scenario_store = Some [(''bmi'', VFloat 32)]"
    and n: "[(''bmi'', VFloat 32)] \<noteq> ([] :: dict)"
    by (simp_all add: scenario_store_def)
  have c: "compute plain_builtins g diabetes_artifact hypertension_artifact
      [(''gender'', VStr ''male''), (''smoker_status'', VInt 2)] [(''bmi'', VFloat 32)]
      (latest_hypertension scenario_store) (latest_biomarkers scenario_store)
      (latest_medication scenario_store) = Inr scenario_prediction" for g
    by (rule scenario_computed)
  from write_outcome_decides [OF u m n c, of failing_environment StoreError]
    write_outcome_decides [OF u m n c, of quiet_environment]
  show ?thesis by (simp add: quiet_environment_def failing_environment_def)
qed

text \<open>
  Claim C9 as stated fails: a hypertension record whose systolic pressure is the text
  'abc' makes \<^verbatim>\<open>float\<close> raise ValueError, and the endpoint answers 500, not 400.
\<close>

theorem text_systolic_is_500:
  "fst (assess_risk plain_builtins quiet_environment diabetes_artifact hypertension_artifact
          text_pressure_store)
     = Inl (HTTPException 500 (Str ValueError))"
proof -
  have u: "user_doc text_pressure_store
             = Some [(''gender'', VStr ''male''), (''smoker_status'', VInt 2)]"
    and m: "measurements_doc text_pressure_store = Some [(''bmi'', VFloat 32)]"
    by (simp_all add: text_pressure_store_def scenario_store_def)
  have "assemble_features plain_builtins
          [(''gender'', VStr ''male''), (''smoker_status'', VInt 2)] [(''bmi'', VFloat 32)]
          (latest_hypertension text_pressure_store) (latest_biomarkers text_pressure_store)
          (latest_medication text_pressure_store) = Inl ValueError"
    by (simp add: assemble_features_def build_features_def conv_defs text_pressure_store_def
          scenario_store_def plain_builtins_def digit_string_def bmi_category_def is_obese_def)
  then show ?thesis
    by (simp add: assess_risk_unfold u m compute_assemble_fails)
qed


text \<open>
  Claim C9, amended. Whenever a numeric feature field (bmi, systolic, diastolic, pulse, a
  biomarker value, age_group, smoker_status, bp_medication, bp_category or one of the
  three indicator flags) holds a value that its conversion rejects, feature assembly
  raises, nothing is coerced, and the endpoint answers 500 with the text of the exception,
  the Record Store being left as it was. No path of the endpoint answers 400.
\<close>

theorem malformed_field_is_500:
  assumes "user_doc S = Some u" and "measurements_doc S = Some m" and "m \<noteq> []"
    and "isl (as_number (dict_get m ''bmi'' (VFloat 25)))
       \<or> isl (py_float B (dict_get (or_empty (latest_hypertension S)) ''systolic'' (VInt 120)))
       \<or> isl (py_float B (dict_get (or_empty (latest_hypertension S)) ''diastolic'' (VInt 80)))
       \<or> isl (py_float B (dict_get (or_empty (latest_hypertension S)) ''pulse'' (VInt 72)))
       \<or> isl (lab_value B ''Cholesterol''
                (dict_get (or_empty (latest_biomarkers S)) ''results'' (VList [])) (VInt 180))
       \<or> isl (lab_value B ''Glucose''
                (dict_get (or_empty (latest_biomarkers S)) ''results'' (VList [])) (VInt 100))
       \<or> isl (py_int B (dict_get u ''age_group'' (VInt 1)))
       \<or> isl (py_int B (dict_get u ''smoker_status'' (VInt 0)))
       \<or> isl (py_int B (dict_get (or_empty (latest_medication S)) ''bp_medication'' (VInt 0)))
       \<or> isl (py_int B (dict_get (or_empty (latest_hypertension S)) ''bp_category'' (VInt 0)))
       \<or> isl (py_int B (dict_get (or_empty (latest_hypertension S)) ''prediabetes_indicator'' (VInt 0)))
       \<or> isl (py_int B (dict_get (or_empty (latest_hypertension S)) ''insulin_resistance'' (VInt 0)))
       \<or> isl (py_int B (dict_get (or_empty (latest_hypertension S)) ''metabolic_syndrome'' (VInt 0)))"
  shows "\<exists>e. assess_risk B E dia hyp S = (Inl (HTTPException 500 (Str e)), S)"
proof -
  have "isl (assemble_features B u m (latest_hypertension S) (latest_biomarkers S)
               (latest_medication S))"
  proof (cases "as_number (dict_get m ''bmi'' (VFloat 25))")
    case (Inl e)
    then show ?thesis by (simp add: assemble_features_isl)
  next
    case (Inr x)
    with assms(4) show ?thesis
      by (simp add: assemble_features_isl build_features_isl) blast
  qed
  then obtain e where "assemble_features B u m (latest_hypertension S) (latest_biomarkers S)
               (latest_medication S) = Inl e"
    by (auto simp: isl_def)
  then have "compute B (rng E) dia hyp u m (latest_hypertension S) (latest_biomarkers S)
               (latest_medication S) = Inl e"
    by (rule compute_assemble_fails)
  with assms(1-3) show ?thesis
    by (simp add: assess_risk_unfold)
qed

theorem malformed_field_is_500_witness:
  "isl (lab_value plain_builtins ''Glucose''
          (dict_get (or_empty (latest_biomarkers null_glucose_store)) ''results'' (VList []))
          (VInt 100))
   \<and> (\<exists>e. assess_risk plain_builtins quiet_environment diabetes_artifact hypertension_artifact
              null_glucose_store
            = (Inl (HTTPException 500 (Str e)), null_glucose_store))"
proof -
  have u: "user_doc null_glucose_store
             = Some [(''gender'', VStr ''male''), (''smoker_status'', VInt 2)]"
    and m: "measurements_doc null_glucose_store = Some [(''bmi'', VFloat 32)]"
    and n: "[(''bmi'', VFloat 32)] \<noteq> ([] :: dict)"
    by (simp_all add: null_glucose_store_def scenario_store_def)
  have g: "isl (lab_value plain_builtins ''Glucose''
          (dict_get (or_empty (latest_biomarkers null_glucose_store)) ''results'' (VList []))
          (VInt 100))"
    by (simp add: null_glucose_store_def conv_defs)
  from malformed_field_is_500 [OF u m n, of plain_builtins quiet_environment
      diabetes_artifact hypertension_artifact] g
  show ?thesis by simp
qed




















end
